theory Spec2Isabelle
  imports Complex_Main "HOL-Library.Sublist"
begin

section \<open>Python values\<close>

text \<open>
  A Python \<open>str\<close> is a sequence of Unicode code points, so it is modelled as a list of
  natural numbers. \<open>lit\<close> embeds an ASCII literal; the few non-ASCII characters of the
  source's literals are written as their code points.
\<close>

type_synonym pystr = "nat list"

definition lit :: "string \<Rightarrow> pystr" where
  "lit s = map of_char s"

text \<open>The characters that \<open>str.strip()\<close> removes: those for which \<open>str.isspace\<close> holds.\<close>

definition isspace :: "nat \<Rightarrow> bool" where
  "isspace c \<longleftrightarrow>
     (9 \<le> c \<and> c \<le> 13) \<or> (28 \<le> c \<and> c \<le> 32) \<or> c = 133 \<or> c = 160 \<or> c = 5760 \<or>
     (8192 \<le> c \<and> c \<le> 8202) \<or> c = 8232 \<or> c = 8233 \<or> c = 8239 \<or> c = 8287 \<or> c = 12288"

text \<open>\<open>s.rstrip(chars)\<close> and \<open>s.strip()\<close>.\<close>

definition rstrip :: "pystr \<Rightarrow> pystr \<Rightarrow> pystr" where
  "rstrip chars s = rev (dropWhile (\<lambda>c. c \<in> set chars) (rev s))"

definition strip :: "pystr \<Rightarrow> pystr" where
  "strip s = dropWhile isspace (rev (dropWhile isspace (rev s)))"

text \<open>\<open>str(n)\<close> for an integer: its decimal digits, with a sign when negative.\<close>

function str_nat :: "nat \<Rightarrow> pystr" where
  "str_nat n = (if n < 10 then [48 + n] else str_nat (n div 10) @ [48 + n mod 10])"
  by pat_completeness auto
termination
  by (relation "measure (\<lambda>n. n)") auto

declare str_nat.simps [simp del]

definition str_int :: "int \<Rightarrow> pystr" where
  "str_int i = (if i < 0 then 45 # str_nat (nat (- i)) else str_nat (nat i))"

text \<open>
  A decoded JSON document, as \<open>json.loads\<close> returns it: \<open>None\<close>, \<open>bool\<close>, \<open>int\<close>,
  \<open>float\<close>, \<open>str\<close>, \<open>list\<close> and \<open>dict\<close> (keys in insertion order). A finite float is
  carried as the real number it denotes.
\<close>

datatype json =
    JNull
  | JBool bool
  | JInt int
  | JFloat real
  | JStr pystr
  | JArr "json list"
  | JObj "(pystr \<times> json) list"

text \<open>
  The exceptions the code can meet. \<open>RequestException\<close> stands for every instance of
  \<open>requests.exceptions.RequestException\<close> (\<open>ConnectionError\<close>, \<open>Timeout\<close>, \<open>HTTPError\<close>,
  \<open>MissingSchema\<close>, \<open>JSONDecodeError\<close>, ...): it carries the name of the instance's class
  and the text \<open>str(e)\<close>. \<open>OtherException\<close> is any other subclass of \<open>Exception\<close>.
\<close>

datatype py_exception =
    RequestException pystr pystr
  | AttributeError pystr
  | TypeError pystr
  | ValueError pystr
  | OtherException pystr pystr

text \<open>\<open>type(e).__name__\<close> and \<open>str(e)\<close>.\<close>

fun exc_name :: "py_exception \<Rightarrow> pystr" where
  "exc_name (RequestException cls msg) = cls"
| "exc_name (AttributeError msg) = lit ''AttributeError''"
| "exc_name (TypeError msg) = lit ''TypeError''"
| "exc_name (ValueError msg) = lit ''ValueError''"
| "exc_name (OtherException cls msg) = cls"

fun exc_str :: "py_exception \<Rightarrow> pystr" where
  "exc_str (RequestException cls msg) = msg"
| "exc_str (AttributeError msg) = msg"
| "exc_str (TypeError msg) = msg"
| "exc_str (ValueError msg) = msg"
| "exc_str (OtherException cls msg) = msg"

section \<open>The HTTP client\<close>

text \<open>
  The backend and the network between it and the front-end are a parameter: a function
  from the request that \<open>requests.get\<close> or \<open>requests.post\<close> sends to what the call does,
  which is to raise or to return a response. The body of a response is either the
  decoded JSON document or, when it does not decode, the decoder's message.
\<close>

datatype http_method = GET | POST

record request =
  req_method :: http_method
  req_url :: pystr
  req_json :: "json option"
  req_timeout :: nat

record response =
  status_code :: int
  reason :: pystr
  resp_url :: pystr
  body :: "pystr + json"

datatype http_result = Raised py_exception | Response response

type_synonym network = "request \<Rightarrow> http_result"

text \<open>
  \<open>Response.raise_for_status()\<close> raises \<open>HTTPError\<close> for a status from 400 to 599, and
  \<open>Response.json()\<close> raises \<open>requests.exceptions.JSONDecodeError\<close> for a body that does
  not decode; both are subclasses of \<open>RequestException\<close>.
\<close>

definition raise_for_status :: "response \<Rightarrow> py_exception + unit" where
  "raise_for_status r =
     (if 400 \<le> status_code r \<and> status_code r < 500 then
        Inl (RequestException (lit ''HTTPError'')
               (str_int (status_code r) @ lit '' Client Error: '' @ reason r @
                lit '' for url: '' @ resp_url r))
      else if 500 \<le> status_code r \<and> status_code r < 600 then
        Inl (RequestException (lit ''HTTPError'')
               (str_int (status_code r) @ lit '' Server Error: '' @ reason r @
                lit '' for url: '' @ resp_url r))
      else Inr ())"

definition response_json :: "response \<Rightarrow> py_exception + json" where
  "response_json r =
     (case body r of
        Inl msg \<Rightarrow> Inl (RequestException (lit ''JSONDecodeError'') msg)
      | Inr v \<Rightarrow> Inr v)"

text \<open>\<open>requests.get(url, timeout=t)\<close> and \<open>requests.post(url, json=payload, timeout=t)\<close>.\<close>

definition requests_get :: "network \<Rightarrow> pystr \<Rightarrow> nat \<Rightarrow> http_result" where
  "requests_get net url t =
     net \<lparr>req_method = GET, req_url = url, req_json = None, req_timeout = t\<rparr>"

definition requests_post :: "network \<Rightarrow> pystr \<Rightarrow> json \<Rightarrow> nat \<Rightarrow> http_result" where
  "requests_post net url payload t =
     net \<lparr>req_method = POST, req_url = url, req_json = Some payload, req_timeout = t\<rparr>"

section \<open>Backend helpers of \<open>app_gradio.py\<close>\<close>

text \<open>\<open>_norm_base(url)\<close>: \<open>(url or "").strip().rstrip("/")\<close>.\<close>

definition norm_base :: "pystr option \<Rightarrow> pystr" where
  "norm_base url = rstrip (lit ''/'') (strip (case url of None \<Rightarrow> [] | Some u \<Rightarrow> u))"

text \<open>\<open>ping\<close> catches every \<open>Exception\<close> of the request.\<close>

definition ping_gradio :: "network \<Rightarrow> pystr \<Rightarrow> bool \<times> pystr" where
  "ping_gradio net api_base =
     (let api_base = norm_base (Some api_base) in
      if api_base = [] then (False, lit ''URL vide'')
      else
        (case requests_get net (api_base @ lit ''/health'') 2 of
           Response r \<Rightarrow>
             if status_code r = 200 then (True, lit ''Connect'' @ [233])
             else (False, lit ''R'' @ [233] @ lit ''ponse backend: '' @ str_int (status_code r))
         | Raised e \<Rightarrow> (False, lit ''Indisponible ('' @ exc_name e @ lit '')'')))"

text \<open>\<open>post_predict\<close> catches nothing: what the request, the status check or the decoder
  raises is raised to the caller.\<close>

definition post_predict_gradio :: "network \<Rightarrow> pystr \<Rightarrow> pystr \<Rightarrow> int \<Rightarrow> py_exception + json" where
  "post_predict_gradio net api_base text top_k =
     (let api_base = norm_base (Some api_base);
          payload = JObj [(lit ''text'', JStr text), (lit ''top_k'', JInt top_k)]
      in case requests_post net (api_base @ lit ''/predict'') payload 20 of
           Raised e \<Rightarrow> Inl e
         | Response r \<Rightarrow>
             (case raise_for_status r of
                Inl e \<Rightarrow> Inl e
              | Inr u \<Rightarrow> response_json r))"

section \<open>Helpers of \<open>app_streamlit.py\<close>\<close>

definition ping_streamlit :: "network \<Rightarrow> pystr \<Rightarrow> bool \<times> pystr" where
  "ping_streamlit net api_base =
     (case requests_get net (api_base @ lit ''/health'') 2 of
        Response r \<Rightarrow>
          if status_code r = 200 then (True, lit ''Connect'' @ [233])
          else (False, lit ''R'' @ [233] @ lit ''ponse backend: '' @ str_int (status_code r))
      | Raised e \<Rightarrow> (False, lit ''Indisponible ('' @ exc_name e @ lit '')''))"

definition post_predict_streamlit :: "network \<Rightarrow> pystr \<Rightarrow> pystr \<Rightarrow> int \<Rightarrow> py_exception + json" where
  "post_predict_streamlit net api_base text top_k =
     (let payload = JObj [(lit ''text'', JStr text), (lit ''top_k'', JInt top_k)]
      in case requests_post net (api_base @ lit ''/predict'') payload 20 of
           Raised e \<Rightarrow> Inl e
         | Response r \<Rightarrow>
             (case raise_for_status r of
                Inl e \<Rightarrow> Inl e
              | Inr u \<Rightarrow> response_json r))"

section \<open>Python operations on decoded values\<close>

text \<open>Truth value testing, as \<open>x or default\<close>, \<open>if x\<close> and \<open>not x\<close> use it.\<close>

fun truthy :: "json \<Rightarrow> bool" where
  "truthy JNull = False"
| "truthy (JBool b) = b"
| "truthy (JInt i) = (i \<noteq> 0)"
| "truthy (JFloat x) = (x \<noteq> 0)"
| "truthy (JStr s) = (s \<noteq> [])"
| "truthy (JArr xs) = (xs \<noteq> [])"
| "truthy (JObj kvs) = (kvs \<noteq> [])"

definition py_or :: "json \<Rightarrow> json \<Rightarrow> json" where
  "py_or a b = (if truthy a then a else b)"

fun type_name :: "json \<Rightarrow> pystr" where
  "type_name JNull = lit ''NoneType''"
| "type_name (JBool b) = lit ''bool''"
| "type_name (JInt i) = lit ''int''"
| "type_name (JFloat x) = lit ''float''"
| "type_name (JStr s) = lit ''str''"
| "type_name (JArr xs) = lit ''list''"
| "type_name (JObj kvs) = lit ''dict''"

text \<open>\<open>d.get(key, default)\<close>: only a \<open>dict\<close> has the method.\<close>

fun dict_get :: "json \<Rightarrow> pystr \<Rightarrow> json \<Rightarrow> py_exception + json" where
  "dict_get (JObj kvs) key dflt = Inr (case map_of kvs key of None \<Rightarrow> dflt | Some v \<Rightarrow> v)"
| "dict_get d key dflt =
     Inl (AttributeError
            ([39] @ type_name d @ [39] @ lit '' object has no attribute '' @ [39] @ lit ''get'' @ [39]))"

text \<open>Iteration: over the elements of a list, the characters of a string, the keys of a
  dict; anything else is not iterable.\<close>

fun py_iter :: "json \<Rightarrow> py_exception + json list" where
  "py_iter (JArr xs) = Inr xs"
| "py_iter (JStr s) = Inr (map (\<lambda>c. JStr [c]) s)"
| "py_iter (JObj kvs) = Inr (map (\<lambda>kv. JStr (fst kv)) kvs)"
| "py_iter v = Inl (TypeError ([39] @ type_name v @ [39] @ lit '' object is not iterable''))"

text \<open>\<open>sep.join(v)\<close>: every item must be a \<open>str\<close>.\<close>

fun join_items :: "nat \<Rightarrow> json list \<Rightarrow> py_exception + pystr list" where
  "join_items i [] = Inr []"
| "join_items i (JStr s # xs) =
     (case join_items (Suc i) xs of Inl e \<Rightarrow> Inl e | Inr ss \<Rightarrow> Inr (s # ss))"
| "join_items i (x # xs) =
     Inl (TypeError (lit ''sequence item '' @ str_int (int i) @
                     lit '': expected str instance, '' @ type_name x @ lit '' found''))"

fun intercalate :: "pystr \<Rightarrow> pystr list \<Rightarrow> pystr" where
  "intercalate sep [] = []"
| "intercalate sep [s] = s"
| "intercalate sep (s # t # ss) = s @ sep @ intercalate sep (t # ss)"

definition join :: "pystr \<Rightarrow> json \<Rightarrow> py_exception + pystr" where
  "join sep v =
     (case py_iter v of
        Inl e \<Rightarrow> Inl (TypeError (lit ''can only join an iterable''))
      | Inr items \<Rightarrow>
          (case join_items 0 items of
             Inl e \<Rightarrow> Inl e
           | Inr ss \<Rightarrow> Inr (intercalate sep ss)))"

text \<open>Sequencing of statements that may raise.\<close>

definition and_then :: "'e + 'a \<Rightarrow> ('a \<Rightarrow> 'e + 'b) \<Rightarrow> 'e + 'b" where
  "and_then m f = (case m of Inl e \<Rightarrow> Inl e | Inr x \<Rightarrow> f x)"

section \<open>Data frames\<close>

text \<open>
  A \<open>pandas.DataFrame\<close>: the number of rows of its index and its columns in order, each a
  label with one cell per row. A cell without a value (\<open>NaN\<close>) is \<open>None\<close>.
\<close>

datatype label = LStr pystr | LInt int

record dataframe =
  df_rows :: nat
  df_columns :: "(label \<times> json option list) list"

definition df_labels :: "dataframe \<Rightarrow> label list" where
  "df_labels df = map fst (df_columns df)"

text \<open>\<open>pd.DataFrame(columns=labels)\<close>.\<close>

definition empty_frame :: "label list \<Rightarrow> dataframe" where
  "empty_frame labels = \<lparr>df_rows = 0, df_columns = map (\<lambda>l. (l, [])) labels\<rparr>"

text \<open>\<open>df[l] = v\<close> for a scalar \<open>v\<close>: every row of column \<open>l\<close> holds \<open>v\<close>; a new column
  comes last.\<close>

definition set_column :: "dataframe \<Rightarrow> label \<Rightarrow> json \<Rightarrow> dataframe" where
  "set_column df l v =
     (if l \<in> set (df_labels df) then
        df\<lparr>df_columns :=
             map (\<lambda>c. if fst c = l then (l, replicate (df_rows df) (Some v)) else c)
               (df_columns df)\<rparr>
      else df\<lparr>df_columns := df_columns df @ [(l, replicate (df_rows df) (Some v))]\<rparr>)"

text \<open>\<open>df[labels]\<close>: the columns with these labels, in the order asked; \<open>KeyError\<close> for a
  label the frame does not have.\<close>

definition select_columns :: "dataframe \<Rightarrow> label list \<Rightarrow> py_exception + dataframe" where
  "select_columns df labels =
     (if list_all (\<lambda>l. l \<in> set (df_labels df)) labels then
        Inr (df\<lparr>df_columns :=
                  concat (map (\<lambda>l. filter (\<lambda>c. fst c = l) (df_columns df)) labels)\<rparr>)
      else Inl (OtherException (lit ''KeyError'') (lit ''not in index'')))"

text \<open>
  What the Python library does beyond the source: \<open>repr\<close> of a float or a container,
  \<open>float(x)\<close> (\<open>None\<close> when it raises), the clock \<open>datetime.utcnow().isoformat()\<close>, and
  \<open>pd.DataFrame(x)\<close> for an \<open>x\<close> that is neither a scalar nor a list of dicts.
\<close>

record pylib =
  py_repr :: "json \<Rightarrow> pystr"
  py_float :: "json \<Rightarrow> real option"
  utcnow_iso :: pystr
  pd_frame :: "json \<Rightarrow> py_exception + dataframe"

text \<open>\<open>str(v)\<close>, also what an f-string puts for \<open>{v}\<close>.\<close>

fun py_str :: "pylib \<Rightarrow> json \<Rightarrow> pystr" where
  "py_str lib (JStr s) = s"
| "py_str lib JNull = lit ''None''"
| "py_str lib (JBool b) = (if b then lit ''True'' else lit ''False'')"
| "py_str lib (JInt i) = str_int i"
| "py_str lib v = py_repr lib v"

text \<open>
  \<open>pd.DataFrame(data)\<close>. A list of dicts gives one row per dict and one column per key, in
  the order the keys first appear; \<open>None\<close> gives the empty frame; a scalar (a number, a
  boolean, a string) is refused with \<open>ValueError\<close>.
\<close>

fun is_dict :: "json \<Rightarrow> bool" where
  "is_dict (JObj kvs) = True"
| "is_dict v = False"

fun dict_items :: "json \<Rightarrow> (pystr \<times> json) list" where
  "dict_items (JObj kvs) = kvs"
| "dict_items v = []"

definition records_frame :: "json list \<Rightarrow> dataframe" where
  "records_frame rows =
     (let keys = rev (remdups (rev (concat (map (\<lambda>r. map fst (dict_items r)) rows))))
      in \<lparr>df_rows = length rows,
          df_columns = map (\<lambda>k. (LStr k, map (\<lambda>r. map_of (dict_items r) k) rows)) keys\<rparr>)"

fun DataFrame :: "pylib \<Rightarrow> json \<Rightarrow> py_exception + dataframe" where
  "DataFrame lib (JArr rows) =
     (if list_all is_dict rows then Inr (records_frame rows) else pd_frame lib (JArr rows))"
| "DataFrame lib (JObj kvs) = pd_frame lib (JObj kvs)"
| "DataFrame lib JNull = Inr (empty_frame [])"
| "DataFrame lib v = Inl (ValueError (lit ''DataFrame constructor not properly called!''))"

section \<open>UI helpers of \<open>app_gradio.py\<close>\<close>

text \<open>\<open>html.escape(s)\<close>, which also escapes both kinds of quote.\<close>

fun html_escape_char :: "nat \<Rightarrow> pystr" where
  \<open>html_escape_char c =
     (if c = 38 then lit ''&amp;''
      else if c = 60 then lit ''&lt;''
      else if c = 62 then lit ''&gt;''
      else if c = 34 then lit ''&quot;''
      else if c = 39 then lit ''&#x27;''
      else [c])\<close>

definition html_escape :: "pystr \<Rightarrow> pystr" where
  "html_escape s = concat (map html_escape_char s)"

definition tags_html :: "pylib \<Rightarrow> json \<Rightarrow> pystr \<Rightarrow> py_exception + pystr" where
  \<open>tags_html lib items variant =
     (if \<not> truthy items then Inr (lit ''<span class='muted'>'' @ [8212] @ lit ''</span>'')
      else
        let cls = (if variant = lit ''tag'' then lit ''tag'' else lit ''tag tag2'') in
        and_then (py_iter items) (\<lambda>xs.
        let safe = map (\<lambda>x. html_escape (py_str lib x)) xs in
        Inr (lit ''<div class='tags'>'' @
             concat (map (\<lambda>x. lit ''<span class='' @ [39] @ cls @ [39] @ lit ''>'' @ x @
                               lit ''</span>'') safe) @
             lit ''</div>'')))\<close>



definition build_details_html :: "pylib \<Rightarrow> json \<Rightarrow> py_exception + pystr" where
  \<open>build_details_html lib data =
     and_then (dict_get data (lit ''primary_disease'') (JStr [8212])) (\<lambda>v.
     let primary = html_escape (py_str lib v) in
     and_then (dict_get data (lit ''specialist'') (JStr [8212])) (\<lambda>v.
     let specialist = html_escape (py_str lib v) in
     and_then (dict_get data (lit ''found_symptoms'') (JArr [])) (\<lambda>v.
     let found = py_or v (JArr []) in
     and_then (dict_get data (lit ''precautions'') (JArr [])) (\<lambda>v.
     let precautions = py_or v (JArr []) in
     and_then (dict_get data (lit ''typical_symptoms'') (JArr [])) (\<lambda>v.
     let typical = py_or v (JArr []) in
     and_then
       (if truthy precautions then
          and_then (py_iter precautions) (\<lambda>ps.
          Inr (lit ''<ul>'' @
               concat (map (\<lambda>p. lit ''<li>'' @ html_escape (py_str lib p) @ lit ''</li>'') ps) @
               lit ''</ul>''))
        else Inr (lit ''<span class='muted'>'' @ [8212] @ lit ''</span>''))
       (\<lambda>precautions_html.
     and_then (tags_html lib found (lit ''tag'')) (\<lambda>tags_found.
     and_then (tags_html lib typical (lit ''tag2'')) (\<lambda>tags_typical.
     Inr
      (lit ''\<newline>'' @
       lit ''    <div class="card">\<newline>'' @
       lit ''      <div class="grid">\<newline>'' @
       lit ''        <div>\<newline>'' @
       lit ''          <div class="k">Maladie probable</div>\<newline>'' @
       lit ''          <div class="v big">'' @ primary @ lit ''</div>\<newline>'' @
       lit ''        </div>\<newline>'' @
       lit ''        <div>\<newline>'' @
       lit ''          <div class="k">Sp'' @ [233] @ lit ''cialiste conseill'' @ [233] @
       lit ''</div>\<newline>'' @
       lit ''          <div class="v">'' @ specialist @ lit ''</div>\<newline>'' @
       lit ''        </div>\<newline>'' @
       lit ''      </div>\<newline>'' @
       lit ''\<newline>'' @
       lit ''      <div class="section">\<newline>'' @
       lit ''        <div class="k">Sympt'' @ [244] @ lit ''mes d'' @ [233] @ lit ''tect'' @
       [233] @ lit ''s</div>\<newline>'' @
       lit ''        '' @ tags_found @ lit ''\<newline>'' @
       lit ''      </div>\<newline>'' @
       lit ''\<newline>'' @
       lit ''      <div class="section">\<newline>'' @
       lit ''        <div class="k">Pr'' @ [233] @ lit ''cautions</div>\<newline>'' @
       lit ''        '' @ precautions_html @ lit ''\<newline>'' @
       lit ''      </div>\<newline>'' @
       lit ''\<newline>'' @
       lit ''      <div class="section">\<newline>'' @
       lit ''        <div class="k">Sympt'' @ [244] @ lit ''mes fr'' @ [233] @
       lit ''quents</div>\<newline>'' @
       lit ''        '' @ tags_typical @ lit ''\<newline>'' @
       lit ''      </div>\<newline>'' @
       lit ''\<newline>'' @
       lit ''      <div class="foot muted">Horodatage: '' @
       html_escape (utcnow_iso lib @ lit ''Z'') @ lit ''</div>\<newline>'' @
       lit ''    </div>\<newline>'' @
       lit ''    '')))))))))\<close>

text \<open>\<open>predictions_to_df(data)\<close>.\<close>

definition predictions_to_df :: "pylib \<Rightarrow> json \<Rightarrow> py_exception + dataframe" where
  "predictions_to_df lib data =
     and_then (dict_get data (lit ''predictions'') (JArr [])) (\<lambda>v.
     let preds = py_or v (JArr []) in
     if \<not> truthy preds then
       Inr (empty_frame [LStr (lit ''disease''), LStr (lit ''probability'')])
     else
       and_then (DataFrame lib preds) (\<lambda>df.
       let df = (if LStr (lit ''disease'') \<notin> set (df_labels df)
                 then set_column df (LStr (lit ''disease'')) (JStr []) else df);
           df = (if LStr (lit ''probability'') \<notin> set (df_labels df)
                 then set_column df (LStr (lit ''probability'')) JNull else df)
       in select_columns df [LStr (lit ''disease''), LStr (lit ''probability'')]))"

section \<open>Callbacks of \<open>app_gradio.py\<close>\<close>

text \<open>The chat history is a list of pairs: the user's text and the assistant's answer.\<close>

type_synonym history = "(pystr \<times> pystr) list"



text \<open>The text \<open>err\<close> that \<open>on_send\<close> builds from \<open>api_url\<close> and \<open>str(e)\<close>.\<close>

definition send_error_text :: "pystr \<Rightarrow> pystr \<Rightarrow> pystr" where
  \<open>send_error_text api_url msg =
     lit ''Je n'' @ [8217] @ lit ''arrive pas '' @ [224] @
     lit '' contacter le service de pr'' @ [233] @ lit ''diction.\<newline>'' @
     lit ''\<newline>'' @
     lit ''- URL: `'' @ api_url @ lit ''`\<newline>'' @
     lit ''- D'' @ [233] @ lit ''tail: `'' @ msg @ lit ''`\<newline>'' @
     lit ''\<newline>'' @
     lit ''V'' @ [233] @ lit ''rifie que le backend tourne et que `/health` r'' @ [233] @
     lit ''pond.''\<close>

text \<open>
  \<open>on_send\<close> returns the new text of the input box, the chatbot history, the history
  state, the last raw JSON, the details HTML and the table. The body of its \<open>try\<close> comes
  first; \<open>on_send\<close> handles a \<open>RequestException\<close> of it and lets any other exception pass.
\<close>

type_synonym send_result = "pystr \<times> history \<times> history \<times> json \<times> pystr \<times> dataframe"

definition on_send_try ::
  "pylib \<Rightarrow> network \<Rightarrow> pystr \<Rightarrow> pystr \<Rightarrow> int \<Rightarrow> history \<Rightarrow> py_exception + send_result" where
  \<open>on_send_try lib net user_text api_url top_k history =
     and_then (post_predict_gradio net api_url user_text top_k) (\<lambda>data.
     and_then (dict_get data (lit ''primary_disease'') (JStr [8212])) (\<lambda>primary.
     and_then (dict_get data (lit ''found_symptoms'') (JArr [])) (\<lambda>v.
     let found = py_or v (JArr []) in
     and_then (if truthy found then join (lit '', '') found else Inr [8212]) (\<lambda>found_str.
     let bot_msg = (lit ''**R'' @ [233] @ lit ''sultat :** '' @ py_str lib primary @
                    lit ''\<newline>'' @
                    lit ''\<newline>'' @
                    lit ''**Sympt'' @ [244] @ lit ''mes d'' @ [233] @ lit ''tect'' @ [233] @
                    lit ''s :** '' @ found_str);
         history = history[length history - 1 := (user_text, bot_msg)] in
     and_then (build_details_html lib data) (\<lambda>details.
     and_then (predictions_to_df lib data) (\<lambda>df.
     Inr ([], history, history, data, details, df)))))))\<close>

definition on_send ::
  "pylib \<Rightarrow> network \<Rightarrow> pystr option \<Rightarrow> pystr \<Rightarrow> int \<Rightarrow> history option \<Rightarrow>
   py_exception + send_result" where
  \<open>on_send lib net user_text api_url top_k history =
     (let user_text = strip (case user_text of None \<Rightarrow> [] | Some t \<Rightarrow> t);
          history = (case history of None \<Rightarrow> [] | Some h \<Rightarrow> h)
      in
      if user_text = [] then
        Inr ([], history, history, JNull, [],
             empty_frame [LStr (lit ''disease''), LStr (lit ''probability'')])
      else
        let history = history @ [(user_text, [8230])] in
        (case on_send_try lib net user_text api_url top_k history of
           Inr result \<Rightarrow> Inr result
         | Inl (RequestException cls msg) \<Rightarrow>
             let err = send_error_text api_url msg;
                 history = history[length history - 1 := (user_text, err)]
             in Inr ([], history, history, JNull, [],
                     empty_frame [LStr (lit ''disease''), LStr (lit ''probability'')])
         | Inl e \<Rightarrow> Inl e))\<close>

section \<open>The page of \<open>app_gradio.py\<close> and its events\<close>

text \<open>The values of the components that the callbacks read and write.\<close>

record page =
  ui_history_state :: history
  ui_hero :: pystr
  ui_api_url :: pystr
  ui_top_k :: int
  ui_status_box :: pystr
  ui_chatbot :: history
  ui_user_text :: "pystr option"
  ui_details :: pystr
  ui_preds_table :: dataframe
  ui_last_raw :: json




definition btn_send_click :: "pylib \<Rightarrow> network \<Rightarrow> page \<Rightarrow> py_exception + page" where
  "btn_send_click lib net p =
     (case on_send lib net (ui_user_text p) (ui_api_url p) (ui_top_k p) (Some (ui_history_state p)) of
        Inl e \<Rightarrow> Inl e
      | Inr (u, c, hs, raw, d, t) \<Rightarrow>
          Inr (p\<lparr>ui_user_text := Some u, ui_chatbot := c, ui_history_state := hs, ui_last_raw := raw,
                 ui_details := d, ui_preds_table := t\<rparr>))"

section \<open>The script of \<open>app_streamlit.py\<close>\<close>

text \<open>\<open>format_assistant_summary(data)\<close>.\<close>

definition format_assistant_summary :: "pylib \<Rightarrow> json \<Rightarrow> py_exception + pystr" where
  \<open>format_assistant_summary lib data =
     and_then (dict_get data (lit ''primary_disease'') (JStr [8212])) (\<lambda>primary.
     and_then (dict_get data (lit ''found_symptoms'') (JArr [])) (\<lambda>v.
     let found = py_or v (JArr []) in
     and_then (if truthy found then join (lit '', '') found else Inr [8212]) (\<lambda>found_str.
     Inr
      (lit ''**R'' @ [233] @ lit ''sultat :** '' @ py_str lib primary @ lit ''\<newline>'' @
       lit ''\<newline>'' @
       lit ''**Sympt'' @ [244] @ lit ''mes d'' @ [233] @ lit ''tect'' @ [233] @
       lit ''s :** '' @ found_str))))\<close>

text \<open>
  A message of the transcript is a dict with the keys \<open>role\<close> and \<open>content\<close> and, for an
  answer, \<open>details\<close>. The session state holds the transcript under \<open>messages\<close> and the
  last decoded response under \<open>last_raw\<close>; a key that is not set is \<open>None\<close>.
\<close>

record details =
  d_primary_disease :: json
  d_found_symptoms :: json
  d_predictions :: json
  d_specialist :: json
  d_precautions :: json
  d_typical_symptoms :: json
  d_confidence :: "real option"
  d_timestamp :: pystr

record message =
  msg_role :: pystr
  msg_content :: pystr
  msg_details :: "details option"

record session_state =
  ss_messages :: "message list option"
  ss_last_raw :: "json option"

text \<open>How a run of the script ends: \<open>st.rerun()\<close> stops it and starts the next run, it
  reaches its end, or an exception leaves it.\<close>

datatype script_end = Rerun | Finished | Escaped py_exception



definition greeting :: message where
  \<open>greeting =
     \<lparr>msg_role = lit ''assistant'',
      msg_content =
          (lit ''Salut ! D'' @ [233] @ lit ''cris tes sympt'' @ [244] @ lit ''mes (ex: '' @
           [171] @ lit '' fi'' @ [232] @ lit ''vre, toux, fatigue '' @ [187] @
           lit ''). Je te r'' @ [233] @ lit ''ponds avec une maladie probable, un sp'' @
           [233] @ lit ''cialiste conseill'' @ [233] @ lit '' et des pr'' @ [233] @
           lit ''cautions.''),
      msg_details = None\<rparr>\<close>

text \<open>The transcript that the chat tab works on: \<open>messages\<close> of the session state, set
  to the greeting when the key is not there.\<close>

definition transcript :: "session_state \<Rightarrow> message list" where
  "transcript ss = (case ss_messages ss of None \<Rightarrow> [greeting] | Some ms \<Rightarrow> ms)"

text \<open>The confidence of an answer: \<open>float\<close> of the first prediction's probability when
  \<open>preds\<close> is a non-empty list whose first item is a dict with that key.\<close>

fun confidence_of :: "pylib \<Rightarrow> json \<Rightarrow> real option" where
  "confidence_of lib (JArr (JObj kvs # rest)) =
     (case map_of kvs (lit ''probability'') of
        None \<Rightarrow> None
      | Some p \<Rightarrow> py_float lib p)"
| "confidence_of lib preds = None"

text \<open>
  The body of the \<open>try\<close> of the chat input, after the user's message was appended. It
  changes the session state as it goes, so it returns the state it reached together
  with the exception that ended it, if any.
\<close>

definition chat_try ::
  "pylib \<Rightarrow> network \<Rightarrow> pystr \<Rightarrow> int \<Rightarrow> pystr \<Rightarrow> message list \<Rightarrow> session_state \<Rightarrow>
   session_state \<times> (py_exception + unit)" where
  \<open>chat_try lib net api_url top_k user_text messages ss =
     (case post_predict_streamlit net api_url user_text top_k of
        Inl e \<Rightarrow> (ss, Inl e)
      | Inr data \<Rightarrow>
          let ss = ss\<lparr>ss_last_raw := Some data\<rparr> in
          (case
             and_then (dict_get data (lit ''predictions'') (JArr [])) (\<lambda>v.
             let preds = py_or v (JArr []);
                 confidence = confidence_of lib preds in
             and_then (dict_get data (lit ''primary_disease'') (JStr [8212])) (\<lambda>primary.
             and_then (dict_get data (lit ''found_symptoms'') (JArr [])) (\<lambda>found.
             and_then (dict_get data (lit ''specialist'') (JStr [8212])) (\<lambda>specialist.
             and_then (dict_get data (lit ''precautions'') (JArr [])) (\<lambda>precautions.
             and_then (dict_get data (lit ''typical_symptoms'') (JArr [])) (\<lambda>typical.
             let details =
                   \<lparr>d_primary_disease = primary,
                    d_found_symptoms = py_or found (JArr []),
                    d_predictions = preds,
                    d_specialist = specialist,
                    d_precautions = py_or precautions (JArr []),
                    d_typical_symptoms = py_or typical (JArr []),
                    d_confidence = confidence,
                    d_timestamp = utcnow_iso lib @ lit ''Z''\<rparr> in
             and_then (format_assistant_summary lib data) (\<lambda>summary.
             Inr \<lparr>msg_role = lit ''assistant'', msg_content = summary,
                  msg_details = Some details\<rparr>)))))))
           of
             Inl e \<Rightarrow> (ss, Inl e)
           | Inr answer \<Rightarrow> (ss\<lparr>ss_messages := Some (messages @ [answer])\<rparr>, Inr ())))\<close>

text \<open>The content of the message that the chat input builds from \<open>api_url\<close> and
  \<open>str(e)\<close> when the request fails.\<close>

definition chat_error_text :: "pystr \<Rightarrow> pystr \<Rightarrow> pystr" where
  \<open>chat_error_text api_url msg =
     lit ''Je n'' @ [8217] @ lit ''arrive pas '' @ [224] @
     lit '' contacter le service de pr'' @ [233] @ lit ''diction.\<newline>'' @
     lit ''\<newline>'' @
     lit ''- URL: `'' @ api_url @ lit ''`\<newline>'' @
     lit ''- D'' @ [233] @ lit ''tail: `'' @ msg @ lit ''`\<newline>'' @
     lit ''\<newline>'' @
     lit ''V'' @ [233] @ lit ''rifie que le backend tourne et que `/health` r'' @ [233] @
     lit ''pond.''\<close>

text \<open>
  The chat tab: the transcript starts with the greeting when \<open>messages\<close> is not set; a
  non-empty input is appended as the user's message and sent; a \<open>RequestException\<close> of the
  \<open>try\<close> becomes a message of the assistant, any other exception leaves the script.
\<close>

definition tab_chat ::
  "pylib \<Rightarrow> network \<Rightarrow> pystr \<Rightarrow> int \<Rightarrow> pystr option \<Rightarrow> session_state \<Rightarrow>
   session_state \<times> script_end" where
  \<open>tab_chat lib net api_url top_k user_text ss =
     (let messages = transcript ss;
          ss = ss\<lparr>ss_messages := Some messages\<rparr>
      in
      case user_text of
        None \<Rightarrow> (ss, Finished)
      | Some t \<Rightarrow>
          if t = [] then (ss, Finished)
          else
            let messages =
                  messages @ [\<lparr>msg_role = lit ''user'', msg_content = t, msg_details = None\<rparr>];
                ss = ss\<lparr>ss_messages := Some messages\<rparr>
            in
            (case chat_try lib net api_url top_k t messages ss of
               (ss, Inr u) \<Rightarrow> (ss, Rerun)
             | (ss, Inl (RequestException cls msg)) \<Rightarrow>
                 (ss\<lparr>ss_messages :=
                       Some (messages @
                         [\<lparr>msg_role = lit ''assistant'',
                           msg_content = chat_error_text api_url msg,
                           msg_details = None\<rparr>])\<rparr>,
                  Rerun)
             | (ss, Inl e) \<Rightarrow> (ss, Escaped e)))\<close>

section \<open>A backend to run the front-ends against\<close>

text \<open>
  A backend at \<open>http://localhost:8000\<close> that honours the contract: \<open>GET /health\<close> answers
  200, \<open>POST /predict\<close> answers 200 with a prediction, and any other path 404. A URL
  without a scheme is refused by the client (\<open>MissingSchema\<close>), and no other host answers.
\<close>

definition sample_prediction :: json where
  "sample_prediction =
     JObj [(lit ''primary_disease'', JStr (lit ''Common Cold'')),
           (lit ''found_symptoms'', JArr [JStr (lit ''cough''), JStr (lit ''fatigue'')]),
           (lit ''predictions'',
              JArr [JObj [(lit ''disease'', JStr (lit ''Common Cold'')),
                          (lit ''probability'', JFloat 0.92)],
                    JObj [(lit ''disease'', JStr (lit ''Flu'')),
                          (lit ''probability'', JFloat 0.06)]]),
           (lit ''specialist'', JStr (lit ''GP'')),
           (lit ''precautions'', JArr [JStr (lit ''Rest'')]),
           (lit ''typical_symptoms'', JArr [JStr (lit ''cough'')])]"

definition sample_backend :: network where
  "sample_backend req =
     (if \<not> prefix (lit ''http://'') (req_url req) then
        Raised (RequestException (lit ''MissingSchema'') (lit ''No scheme supplied''))
      else if \<not> prefix (lit ''http://localhost:8000/'') (req_url req) then
        Raised (RequestException (lit ''ConnectionError'') (lit ''Connection refused''))
      else if req_method req = GET \<and> req_url req = lit ''http://localhost:8000/health'' then
        Response \<lparr>status_code = 200, reason = lit ''OK'', resp_url = req_url req,
                  body = Inr (JObj [(lit ''status'', JStr (lit ''ok''))])\<rparr>
      else if req_method req = POST \<and> req_url req = lit ''http://localhost:8000/predict'' then
        Response \<lparr>status_code = 200, reason = lit ''OK'', resp_url = req_url req,
                  body = Inr sample_prediction\<rparr>
      else
        Response \<lparr>status_code = 404, reason = lit ''Not Found'', resp_url = req_url req,
                  body = Inr (JObj [(lit ''detail'', JStr (lit ''Not Found''))])\<rparr>)"

text \<open>A backend that is down, one that answers 503, one that answers 200 with a page
  that is not JSON, and one whose answer is a JSON list instead of an object.\<close>

definition backend_down :: network where
  "backend_down req =
     Raised (RequestException (lit ''ConnectionError'') (lit ''Connection refused''))"

definition backend_503 :: network where
  "backend_503 req =
     Response \<lparr>status_code = 503, reason = lit ''Service Unavailable'', resp_url = req_url req,
               body = Inl (lit ''Expecting value: line 1 column 1 (char 0)'')\<rparr>"


definition backend_list :: network where
  "backend_list req =
     Response \<lparr>status_code = 200, reason = lit ''OK'', resp_url = req_url req,
               body = Inr (JArr [])\<rparr>"

text \<open>Library functions for the runs below; none of the results stated depends on them.\<close>

definition sample_lib :: pylib where
  "sample_lib =
     \<lparr>py_repr = (\<lambda>v. lit ''?''),
      py_float = (\<lambda>v. case v of JFloat x \<Rightarrow> Some x | JInt i \<Rightarrow> Some (real_of_int i) | _ \<Rightarrow> None),
      utcnow_iso = lit ''2026-01-01T00:00:00'',
      pd_frame = (\<lambda>v. Inl (ValueError (lit ''DataFrame constructor not properly called!'')))\<rparr>"

section \<open>What the specification says, for comparison\<close>

text \<open>
  The health contract in the specification's words: the request \<open>GET {base_url}/health\<close>
  completes and returns HTTP status 200.
\<close>

definition spec_health_ok :: "network \<Rightarrow> pystr \<Rightarrow> bool" where
  "spec_health_ok net base_url =
     (case requests_get net (base_url @ lit ''/health'') 2 of
        Response r \<Rightarrow> status_code r = 200
      | Raised e \<Rightarrow> False)"

text \<open>
  The predict contract in the specification's words: \<open>POST {base_url}/predict\<close> with the
  JSON body \<open>{"text": string, "top_k": integer}\<close>, under the timeout of 20 seconds.
\<close>

definition spec_predict_request :: "pystr \<Rightarrow> pystr \<Rightarrow> int \<Rightarrow> request" where
  "spec_predict_request base_url text top_k =
     \<lparr>req_method = POST, req_url = base_url @ lit ''/predict'',
      req_json = Some (JObj [(lit ''text'', JStr text), (lit ''top_k'', JInt top_k)]),
      req_timeout = 20\<rparr>"

text \<open>
  The response of \<open>POST /predict\<close> in the specification's words: a JSON object with the
  string \<open>primary_disease\<close>, the list of strings \<open>found_symptoms\<close>, the list \<open>predictions\<close>
  of objects with a string \<open>disease\<close> and a number \<open>probability\<close>, the string \<open>specialist\<close>,
  and the lists of strings \<open>precautions\<close> and \<open>typical_symptoms\<close>. As the summary is also
  specified for a response without \<open>found_symptoms\<close>, that field may be absent.
\<close>

fun is_str :: "json \<Rightarrow> bool" where
  "is_str (JStr s) = True"
| "is_str v = False"

fun str_of :: "json \<Rightarrow> pystr" where
  "str_of (JStr s) = s"
| "str_of v = []"

fun is_number :: "json \<Rightarrow> bool" where
  "is_number (JInt i) = True"
| "is_number (JFloat x) = True"
| "is_number v = False"

fun is_str_list :: "json \<Rightarrow> bool" where
  "is_str_list (JArr xs) = list_all is_str xs"
| "is_str_list v = False"

definition has_field :: "(json \<Rightarrow> bool) \<Rightarrow> (pystr \<times> json) list \<Rightarrow> pystr \<Rightarrow> bool" where
  "has_field P kvs key = (case map_of kvs key of None \<Rightarrow> False | Some v \<Rightarrow> P v)"

fun is_prediction :: "json \<Rightarrow> bool" where
  "is_prediction (JObj kvs) =
     (has_field is_str kvs (lit ''disease'') \<and> has_field is_number kvs (lit ''probability''))"
| "is_prediction v = False"

fun is_prediction_list :: "json \<Rightarrow> bool" where
  "is_prediction_list (JArr xs) = list_all is_prediction xs"
| "is_prediction_list v = False"

fun valid_response :: "json \<Rightarrow> bool" where
  "valid_response (JObj kvs) =
     (has_field is_str kvs (lit ''primary_disease'') \<and>
      (map_of kvs (lit ''found_symptoms'') = None \<or>
       has_field is_str_list kvs (lit ''found_symptoms'')) \<and>
      has_field is_prediction_list kvs (lit ''predictions'') \<and>
      has_field is_str kvs (lit ''specialist'') \<and>
      has_field is_str_list kvs (lit ''precautions'') \<and>
      has_field is_str_list kvs (lit ''typical_symptoms''))"
| "valid_response v = False"

text \<open>The value of \<open>primary_disease\<close> and the elements of \<open>found_symptoms\<close> of a response, and
  the text that the summary must show for the latter: the elements joined with a comma
  and a space, or the em dash when there is none.\<close>

fun field_of :: "json \<Rightarrow> pystr \<Rightarrow> json option" where
  "field_of (JObj kvs) key = map_of kvs key"
| "field_of v key = None"

definition response_primary :: "json \<Rightarrow> pystr" where
  "response_primary data =
     (case field_of data (lit ''primary_disease'') of None \<Rightarrow> [] | Some v \<Rightarrow> str_of v)"

definition response_found :: "json \<Rightarrow> pystr list" where
  "response_found data =
     (case field_of data (lit ''found_symptoms'') of
        Some (JArr xs) \<Rightarrow> map str_of xs
      | _ \<Rightarrow> [])"

definition spec_found_text :: "pystr list \<Rightarrow> pystr" where
  "spec_found_text fs = (if fs = [] then [8212] else intercalate (lit '', '') fs)"

text \<open>
  The values of \<open>predictions\<close> for which \<open>predictions_to_df\<close> is specified: none, an empty
  one (\<open>null\<close>, an empty list), or a list of objects, whatever their fields.
\<close>

fun is_dict_list :: "json \<Rightarrow> bool" where
  "is_dict_list (JArr xs) = list_all is_dict xs"
| "is_dict_list v = False"

definition predictions_ok :: "json option \<Rightarrow> bool" where
  "predictions_ok v = (case v of None \<Rightarrow> True | Some p \<Rightarrow> \<not> truthy p \<or> is_dict_list p)"

section \<open>Facts about the string operations\<close>

lemmas run_simps =
  lit_def norm_base_def strip_def rstrip_def isspace_def requests_get_def requests_post_def
  raise_for_status_def response_json_def

lemma rstrip_prefix: "\<exists>r. s = rstrip chars s @ r"
proof -
  have "s = rstrip chars s @ rev (takeWhile (\<lambda>c. c \<in> set chars) (rev s))"
    unfolding rstrip_def by (metis rev_append rev_rev_ident takeWhile_dropWhile_id)
  then show ?thesis ..
qed

lemma rstrip_last:
  assumes "rstrip chars s \<noteq> []"
  shows "last (rstrip chars s) \<notin> set chars"
proof -
  let ?d = "dropWhile (\<lambda>c. c \<in> set chars) (rev s)"
  from assms have ne: "?d \<noteq> []" by (simp only: rstrip_def rev_is_Nil_conv not_False_eq_True)
  then have "hd ?d \<notin> set chars" by (rule hd_dropWhile)
  moreover from ne have "last (rev ?d) = hd ?d" by (simp add: last_rev del: dropWhile_eq_Nil_conv)
  ultimately show ?thesis unfolding rstrip_def by metis
qed

lemma strip_hd: "strip s \<noteq> [] \<Longrightarrow> \<not> isspace (hd (strip s))"
  unfolding strip_def by (simp add: hd_dropWhile)

text \<open>What \<open>_norm_base\<close> does guarantee: no slash at the end and no white space at the
  start of its result.\<close>

lemma norm_base_no_trailing_slash: "norm_base u \<noteq> [] \<Longrightarrow> last (norm_base u) \<noteq> 47"
  using rstrip_last [of "lit ''/''"] unfolding norm_base_def by (fastforce simp: lit_def)

lemma norm_base_no_leading_space: "norm_base u \<noteq> [] \<Longrightarrow> \<not> isspace (hd (norm_base u))"
proof -
  assume ne: "norm_base u \<noteq> []"
  define s where "s = strip (case u of None \<Rightarrow> [] | Some x \<Rightarrow> x)"
  have nb: "norm_base u = rstrip (lit ''/'') s" by (simp add: norm_base_def s_def)
  obtain r where r: "s = rstrip (lit ''/'') s @ r" using rstrip_prefix by blast
  from ne nb have "hd s = hd (norm_base u)" using r by (metis hd_append2)
  moreover from ne nb r have "s \<noteq> []" by auto
  ultimately show ?thesis
    using strip_hd [of "case u of None \<Rightarrow> [] | Some x \<Rightarrow> x"] by (simp add: s_def)
qed

section \<open>Facts about the send handlers\<close>

lemma sublist_skip: "sublist xs ys \<Longrightarrow> sublist xs (zs @ ys)"
  by (metis append.assoc sublist_def)

lemma send_error_text_url: "sublist url (send_error_text url msg)"
  unfolding send_error_text_def by (rule sublist_append_rightI | rule sublist_skip)+

lemma send_error_text_detail: "sublist msg (send_error_text url msg)"
  unfolding send_error_text_def by (rule sublist_append_rightI | rule sublist_skip)+

lemma chat_error_text_url: "sublist url (chat_error_text url msg)"
  unfolding chat_error_text_def by (rule sublist_append_rightI | rule sublist_skip)+

lemma chat_error_text_detail: "sublist msg (chat_error_text url msg)"
  unfolding chat_error_text_def by (rule sublist_append_rightI | rule sublist_skip)+

lemma on_send_try_failure:
  "post_predict_gradio net url t k = Inl e \<Longrightarrow> on_send_try lib net t url k h = Inl e"
  by (simp add: on_send_try_def and_then_def)

lemma on_send_failure:
  assumes "strip (case ut of None \<Rightarrow> [] | Some x \<Rightarrow> x) = t" and "t \<noteq> []"
    and "post_predict_gradio net url t k = Inl (RequestException cls msg)"
  shows "on_send lib net ut url k hopt =
           Inr ([], (case hopt of None \<Rightarrow> [] | Some h \<Rightarrow> h) @ [(t, send_error_text url msg)],
                (case hopt of None \<Rightarrow> [] | Some h \<Rightarrow> h) @ [(t, send_error_text url msg)],
                JNull, [], empty_frame [LStr (lit ''disease''), LStr (lit ''probability'')])"
  using assms by (simp add: on_send_def Let_def on_send_try_failure)

lemma chat_try_failure:
  "post_predict_streamlit net url t k = Inl e \<Longrightarrow>
   chat_try lib net url k t ms ss = (ss, Inl e)"
  by (simp add: chat_try_def)

lemma tab_chat_failure:
  assumes "t \<noteq> []" and "post_predict_streamlit net url t k = Inl (RequestException cls msg)"
  shows "tab_chat lib net url k (Some t) ss =
           (ss\<lparr>ss_messages := Some (transcript ss @
              [\<lparr>msg_role = lit ''user'', msg_content = t, msg_details = None\<rparr>,
               \<lparr>msg_role = lit ''assistant'', msg_content = chat_error_text url msg,
                 msg_details = None\<rparr>])\<rparr>, Rerun)"
  using assms by (simp add: tab_chat_def Let_def chat_try_failure)

text \<open>The kinds of failure of the request, as \<open>post_predict\<close> raises them: an exception
  of the request itself, an HTTP error status, a body that does not decode.\<close>

lemma post_predict_gradio_raised:
  "requests_post net (norm_base (Some url) @ lit ''/predict'')
     (JObj [(lit ''text'', JStr t), (lit ''top_k'', JInt k)]) 20 = Raised e \<Longrightarrow>
   post_predict_gradio net url t k = Inl e"
  by (simp add: post_predict_gradio_def)

lemma post_predict_gradio_http_error:
  "requests_post net (norm_base (Some url) @ lit ''/predict'')
     (JObj [(lit ''text'', JStr t), (lit ''top_k'', JInt k)]) 20 = Response r \<Longrightarrow>
   400 \<le> status_code r \<Longrightarrow> status_code r < 600 \<Longrightarrow>
   \<exists>m. post_predict_gradio net url t k = Inl (RequestException (lit ''HTTPError'') m)"
  by (simp add: post_predict_gradio_def raise_for_status_def)


lemma post_predict_streamlit_raised:
  "requests_post net (url @ lit ''/predict'')
     (JObj [(lit ''text'', JStr t), (lit ''top_k'', JInt k)]) 20 = Raised e \<Longrightarrow>
   post_predict_streamlit net url t k = Inl e"
  by (simp add: post_predict_streamlit_def)

lemma post_predict_streamlit_http_error:
  "requests_post net (url @ lit ''/predict'')
     (JObj [(lit ''text'', JStr t), (lit ''top_k'', JInt k)]) 20 = Response r \<Longrightarrow>
   400 \<le> status_code r \<Longrightarrow> status_code r < 600 \<Longrightarrow>
   \<exists>m. post_predict_streamlit net url t k = Inl (RequestException (lit ''HTTPError'') m)"
  by (simp add: post_predict_streamlit_def raise_for_status_def)






section \<open>Facts about data frames\<close>

lemma filter_label_one:
  "distinct (map fst cols) \<Longrightarrow> l \<in> set (map fst cols) \<Longrightarrow>
   map fst (filter (\<lambda>c. fst c = l) cols) = [l]"
proof (induction cols)
  case Nil
  then show ?case by simp
next
  case (Cons c cols)
  show ?case
  proof (cases "fst c = l")
    case True
    with Cons.prems have "l \<notin> set (map fst cols)" by auto
    then have "filter (\<lambda>c. fst c = l) cols = []" by (auto simp: filter_empty_conv)
    with True show ?thesis by simp
  next
    case False
    with Cons show ?thesis by auto
  qed
qed

lemma select_two_columns:
  assumes "distinct (df_labels df)" and "a \<in> set (df_labels df)" and "b \<in> set (df_labels df)"
  shows "\<exists>df'. select_columns df [a, b] = Inr df' \<and> df_labels df' = [a, b]"
  using assms filter_label_one [of "df_columns df" a] filter_label_one [of "df_columns df" b]
  by (simp add: select_columns_def df_labels_def)

lemma set_column_new_labels:
  "l \<notin> set (df_labels df) \<Longrightarrow> df_labels (set_column df l v) = df_labels df @ [l]"
  by (simp add: set_column_def df_labels_def)

lemma records_frame_distinct: "distinct (df_labels (records_frame rows))"
  by (simp add: records_frame_def df_labels_def Let_def distinct_map comp_def inj_on_def)

lemma frame_columns_ensured:
  assumes "distinct (df_labels df)" and "a \<noteq> b"
  shows "\<exists>df'.
     (let df1 = (if a \<notin> set (df_labels df) then set_column df a v else df);
          df2 = (if b \<notin> set (df_labels df1) then set_column df1 b w else df1)
      in select_columns df2 [a, b]) = Inr df' \<and> df_labels df' = [a, b]"
proof -
  define df1 where "df1 = (if a \<notin> set (df_labels df) then set_column df a v else df)"
  define df2 where "df2 = (if b \<notin> set (df_labels df1) then set_column df1 b w else df1)"
  have d1: "distinct (df_labels df1)" and a1: "a \<in> set (df_labels df1)"
    using assms(1) by (auto simp: df1_def set_column_new_labels)
  have d2: "distinct (df_labels df2)" and a2: "a \<in> set (df_labels df2)"
    and b2: "b \<in> set (df_labels df2)"
    using d1 a1 by (auto simp: df2_def set_column_new_labels)
  from select_two_columns [OF d2 a2 b2] show ?thesis
    unfolding Let_def df2_def df1_def .
qed

lemma predictions_to_df_ok:
  assumes "predictions_ok (map_of kvs (lit ''predictions''))"
  shows "\<exists>df. predictions_to_df lib (JObj kvs) = Inr df \<and>
              df_labels df = [LStr (lit ''disease''), LStr (lit ''probability'')]"
proof (cases "truthy (py_or (case map_of kvs (lit ''predictions'') of None \<Rightarrow> JArr [] | Some v \<Rightarrow> v)
                 (JArr []))")
  case False
  then show ?thesis
    by (simp add: predictions_to_df_def and_then_def Let_def empty_frame_def df_labels_def)
next
  case True
  then obtain p where p: "map_of kvs (lit ''predictions'') = Some p" and tp: "truthy p"
    by (cases "map_of kvs (lit ''predictions'')") (auto simp: py_or_def split: if_splits)
  with assms obtain rows where rows: "p = JArr rows" and dicts: "list_all is_dict rows"
    by (cases p) (auto simp: predictions_ok_def)
  have ne: "LStr (lit ''disease'') \<noteq> LStr (lit ''probability'')" by (simp add: lit_def)
  from frame_columns_ensured [OF records_frame_distinct ne, of rows "JStr []" JNull]
  show ?thesis using p tp rows dicts
    by (simp add: predictions_to_df_def and_then_def py_or_def Let_def)
qed

section \<open>Facts about the summary of a valid response\<close>

lemma join_items_strs: "list_all is_str xs \<Longrightarrow> join_items i xs = Inr (map str_of xs)"
proof (induction xs arbitrary: i)
  case Nil
  then show ?case by simp
next
  case (Cons x xs)
  then show ?case by (cases x) simp_all
qed

lemma is_str_listE:
  assumes "is_str_list v"
  obtains xs where "v = JArr xs" and "list_all is_str xs"
  using assms by (cases v) simp_all

lemma is_strE:
  assumes "is_str v"
  obtains s where "v = JStr s"
  using assms by (cases v) simp_all

lemma is_prediction_is_dict: "is_prediction v \<Longrightarrow> is_dict v"
  by (cases v) simp_all

lemma is_prediction_list_dicts: "is_prediction_list v \<Longrightarrow> is_dict_list v"
  by (cases v) (auto simp: list_all_iff is_prediction_is_dict)

lemma has_fieldE:
  assumes "has_field P kvs key"
  obtains v where "map_of kvs key = Some v" and "P v"
  using assms by (auto simp: has_field_def split: option.splits)

lemma found_text_list:
  assumes "list_all is_str xs"
  shows "(if truthy (py_or (JArr xs) (JArr [])) then join (lit '', '') (py_or (JArr xs) (JArr []))
          else Inr [8212]) = Inr (spec_found_text (map str_of xs))"
  using assms by (simp add: py_or_def join_def join_items_strs spec_found_text_def)

lemma found_text_valid:
  assumes "map_of kvs (lit ''found_symptoms'') = None \<or>
           has_field is_str_list kvs (lit ''found_symptoms'')"
  shows "(if truthy (py_or (case map_of kvs (lit ''found_symptoms'') of None \<Rightarrow> JArr [] | Some v \<Rightarrow> v)
                 (JArr []))
          then join (lit '', '')
                 (py_or (case map_of kvs (lit ''found_symptoms'') of None \<Rightarrow> JArr [] | Some v \<Rightarrow> v)
                    (JArr []))
          else Inr [8212]) = Inr (spec_found_text (response_found (JObj kvs)))"
proof (cases "map_of kvs (lit ''found_symptoms'')")
  case None
  then show ?thesis by (simp add: py_or_def response_found_def spec_found_text_def)
next
  case (Some v)
  with assms have "is_str_list v" by (simp add: has_field_def)
  then obtain xs where v: "v = JArr xs" and xs: "list_all is_str xs" by (rule is_str_listE)
  show ?thesis
    by (simp only: Some v option.case response_found_def field_of.simps json.case
          found_text_list [OF xs])
qed

lemma suffix_skip: "suffix xs ys \<Longrightarrow> suffix xs (zs @ ys)"
  by (rule suffix_appendI)

lemma summary_valid:
  assumes "valid_response data"
  shows "\<exists>s. format_assistant_summary lib data = Inr s \<and>
             sublist (response_primary data) s \<and>
             suffix (spec_found_text (response_found data)) s"
proof -
  from assms obtain kvs where data: "data = JObj kvs" by (cases data) simp_all
  from assms data obtain p where p: "map_of kvs (lit ''primary_disease'') = Some (JStr p)"
    by (auto elim!: has_fieldE is_strE)
  from assms data have f: "map_of kvs (lit ''found_symptoms'') = None \<or>
           has_field is_str_list kvs (lit ''found_symptoms'')" by simp
  have rp: "response_primary data = p" by (simp add: response_primary_def data p)
  show ?thesis
    unfolding data format_assistant_summary_def and_then_def Let_def rp [unfolded data]
    apply (simp only: dict_get.simps p option.case sum.case found_text_valid [OF f] py_str.simps)
    apply (rule exI, intro conjI, rule refl)
     apply (rule sublist_append_rightI | rule sublist_skip)+
    apply (rule suffix_skip)+
    apply (rule suffix_order.refl)
    done
qed


lemma tags_html_list: "\<exists>h. tags_html lib (py_or (JArr xs) (JArr [])) variant = Inr h"
  by (simp add: tags_html_def py_or_def and_then_def Let_def)

lemma build_details_html_valid:
  assumes "valid_response data"
  shows "\<exists>d. build_details_html lib data = Inr d"
proof -
  from assms obtain kvs where data: "data = JObj kvs" by (cases data) simp_all
  from assms data obtain pr where pr: "map_of kvs (lit ''precautions'') = Some (JArr pr)"
    by (auto elim!: has_fieldE is_str_listE)
  from assms data obtain ty where ty: "map_of kvs (lit ''typical_symptoms'') = Some (JArr ty)"
    by (auto elim!: has_fieldE is_str_listE)
  from assms data obtain fo where
    fo: "(case map_of kvs (lit ''found_symptoms'') of None \<Rightarrow> JArr [] | Some v \<Rightarrow> v) = JArr fo"
    by (auto elim!: has_fieldE is_str_listE)
  show ?thesis
    unfolding data build_details_html_def
    using pr ty fo
    by (simp add: Let_def py_or_def and_then_def tags_html_def)
qed

lemma predictions_to_df_valid:
  assumes "valid_response data"
  shows "\<exists>df. predictions_to_df lib data = Inr df"
proof -
  from assms obtain kvs where data: "data = JObj kvs" by (cases data) simp_all
  from assms data have "predictions_ok (map_of kvs (lit ''predictions''))"
    by (auto elim!: has_fieldE simp: predictions_ok_def is_prediction_list_dicts)
  from predictions_to_df_ok [OF this] show ?thesis unfolding data by blast
qed

lemma on_send_try_summary:
  assumes "post_predict_gradio net url t k = Inr data"
    and "format_assistant_summary lib data = Inr s"
    and "build_details_html lib data = Inr d"
    and "predictions_to_df lib data = Inr df"
  shows "on_send_try lib net t url k h = Inr ([], h[length h - 1 := (t, s)],
           h[length h - 1 := (t, s)], data, d, df)"
  using assms
  by (auto simp add: on_send_try_def format_assistant_summary_def and_then_def Let_def
        split: sum.splits)

lemma on_send_success:
  assumes "strip (case ut of None \<Rightarrow> [] | Some x \<Rightarrow> x) = t" and "t \<noteq> []"
    and "post_predict_gradio net url t k = Inr data"
    and "format_assistant_summary lib data = Inr s"
    and "build_details_html lib data = Inr d"
    and "predictions_to_df lib data = Inr df"
  shows "on_send lib net ut url k hopt =
           Inr ([], (case hopt of None \<Rightarrow> [] | Some h \<Rightarrow> h) @ [(t, s)],
                (case hopt of None \<Rightarrow> [] | Some h \<Rightarrow> h) @ [(t, s)], data, d, df)"
  using assms(1,2) on_send_try_summary [OF assms(3-6)]
  by (simp add: on_send_def Let_def)

section \<open>Normalising the base URL\<close>

text \<open>
  Claim C10 says that \<open>_norm_base\<close> is idempotent and that its result never ends with a
  slash or has white space around it. The function strips the white space first and the
  slashes after, so white space in front of a final slash stays: on
  \<open>"http://localhost:8000 /"\<close> the result ends with a space, and a second application
  removes it, so the two applications differ.
\<close>

theorem norm_base_space_before_slash:
  "norm_base (Some (lit ''http://localhost:8000 /'')) = lit ''http://localhost:8000 '' \<and>
   norm_base (Some (norm_base (Some (lit ''http://localhost:8000 /'')))) =
     lit ''http://localhost:8000''"
  by (simp add: norm_base_def strip_def rstrip_def isspace_def lit_def)

section \<open>The health check\<close>

text \<open>
  Claim C2, as amended: the health check answers positively exactly when its request
  completes with HTTP status 200, and negatively for any other status and for any
  exception. The Streamlit \<open>ping\<close> requests \<open>GET {base_url}/health\<close> for the base URL as
  given. The Gradio \<open>ping\<close> requests it for the normalised base URL, and answers
  negatively without a request when the normalised base URL is empty.
\<close>

theorem ping_positive_iff_200:
  "(fst (ping_streamlit net b) \<longleftrightarrow> spec_health_ok net b) \<and>
   (fst (ping_gradio net b) \<longleftrightarrow>
      norm_base (Some b) \<noteq> [] \<and> spec_health_ok net (norm_base (Some b)))"
  by (simp add: ping_streamlit_def ping_gradio_def spec_health_ok_def Let_def
           split: http_result.split)

text \<open>Both checks against the sample backend.\<close>

theorem ping_positive_iff_200_witness:
  "fst (ping_streamlit sample_backend (lit ''http://localhost:8000'')) \<and>
   fst (ping_gradio sample_backend (lit ''http://localhost:8000/''))"
  using ping_positive_iff_200 [of sample_backend "lit ''http://localhost:8000''"]
        ping_positive_iff_200 [of sample_backend "lit ''http://localhost:8000/''"]
  by (simp add: spec_health_ok_def sample_backend_def run_simps)

text \<open>
  The claim as stated fails for the Gradio \<open>ping\<close> on a base URL with a final slash: the
  check is positive although \<open>GET {base_url}/health\<close>, which has two slashes, is answered
  404.
\<close>

theorem ping_gradio_trailing_slash:
  "fst (ping_gradio sample_backend (lit ''http://localhost:8000/'')) \<and>
   \<not> spec_health_ok sample_backend (lit ''http://localhost:8000/'')"
  by (simp add: ping_gradio_def spec_health_ok_def sample_backend_def run_simps)

section \<open>The two health checks compared\<close>

text \<open>
  Claim C8, as amended: the Gradio \<open>ping\<close> on a base URL answers what the Streamlit \<open>ping\<close>
  answers on the normalised base URL, except that it answers \<open>(False, "URL vide")\<close>
  without a request when the normalised base URL is empty. So the two checks return the
  same pair on every base URL that is not empty and already normalised.
\<close>

theorem ping_gradio_is_ping_streamlit_normalised:
  "ping_gradio net b =
     (if norm_base (Some b) = [] then (False, lit ''URL vide'')
      else ping_streamlit net (norm_base (Some b))) \<and>
   (norm_base (Some b) = b \<and> b \<noteq> [] \<longrightarrow> ping_gradio net b = ping_streamlit net b)"
  by (simp add: ping_gradio_def ping_streamlit_def Let_def)

theorem ping_gradio_is_ping_streamlit_normalised_witness:
  "norm_base (Some (lit ''http://localhost:8000'')) = lit ''http://localhost:8000'' \<and>
   lit ''http://localhost:8000'' \<noteq> [] \<and>
   ping_gradio sample_backend (lit ''http://localhost:8000'') =
   ping_streamlit sample_backend (lit ''http://localhost:8000'')"
  using ping_gradio_is_ping_streamlit_normalised [of sample_backend "lit ''http://localhost:8000''"]
  by (simp add: run_simps)

text \<open>The claim as stated fails on the empty string, where the two messages differ.\<close>

theorem pings_differ_on_empty:
  "ping_gradio sample_backend [] \<noteq> ping_streamlit sample_backend []"
  by (simp add: ping_gradio_def ping_streamlit_def sample_backend_def run_simps)

text \<open>It fails on a final slash too: the Streamlit \<open>ping\<close> requests a path with two slashes.\<close>

lemma pings_differ_on_trailing_slash:
  "ping_gradio sample_backend (lit ''http://localhost:8000/'') = (True, lit ''Connect'' @ [233]) \<and>
   ping_streamlit sample_backend (lit ''http://localhost:8000/'') =
     (False, lit ''R'' @ [233] @ lit ''ponse backend: 404'')"
  by (simp add: ping_gradio_def ping_streamlit_def sample_backend_def run_simps
        str_int_def str_nat.simps)

section \<open>A failing request becomes one message of the assistant\<close>

text \<open>
  Claim C1: when the \<open>POST /predict\<close> call fails, that is when \<open>post_predict\<close> raises a
  \<open>RequestException\<close> (a network error, a timeout, an HTTP error status), the send handler
  returns normally and the conversation grows by exactly one message of the assistant,
  whose text contains the configured backend URL and the text of the error. In the
  Gradio front-end the message is the answer of the new pair of the history; in the
  Streamlit front-end it follows the user's message, and the script ends with a rerun.
\<close>

theorem send_failure_one_error_message:
  "(strip (case ut of None \<Rightarrow> [] | Some x \<Rightarrow> x) = t \<and> t \<noteq> [] \<and>
    post_predict_gradio net url t k = Inl (RequestException cls msg) \<longrightarrow>
      on_send lib net ut url k hopt =
        Inr ([], (case hopt of None \<Rightarrow> [] | Some h \<Rightarrow> h) @ [(t, send_error_text url msg)],
             (case hopt of None \<Rightarrow> [] | Some h \<Rightarrow> h) @ [(t, send_error_text url msg)],
             JNull, [], empty_frame [LStr (lit ''disease''), LStr (lit ''probability'')]) \<and>
      sublist url (send_error_text url msg) \<and> sublist msg (send_error_text url msg)) \<and>
   (t \<noteq> [] \<and> post_predict_streamlit net url t k = Inl (RequestException cls msg) \<longrightarrow>
      tab_chat lib net url k (Some t) ss =
        (ss\<lparr>ss_messages := Some (transcript ss @
           [\<lparr>msg_role = lit ''user'', msg_content = t, msg_details = None\<rparr>,
            \<lparr>msg_role = lit ''assistant'', msg_content = chat_error_text url msg,
              msg_details = None\<rparr>])\<rparr>, Rerun) \<and>
      sublist url (chat_error_text url msg) \<and> sublist msg (chat_error_text url msg))"
proof (intro conjI impI)
  assume "strip (case ut of None \<Rightarrow> [] | Some x \<Rightarrow> x) = t \<and> t \<noteq> [] \<and>
          post_predict_gradio net url t k = Inl (RequestException cls msg)"
  then show "on_send lib net ut url k hopt =
        Inr ([], (case hopt of None \<Rightarrow> [] | Some h \<Rightarrow> h) @ [(t, send_error_text url msg)],
             (case hopt of None \<Rightarrow> [] | Some h \<Rightarrow> h) @ [(t, send_error_text url msg)],
             JNull, [], empty_frame [LStr (lit ''disease''), LStr (lit ''probability'')])"
    by (intro on_send_failure) simp_all
next
  assume "t \<noteq> [] \<and> post_predict_streamlit net url t k = Inl (RequestException cls msg)"
  then show "tab_chat lib net url k (Some t) ss =
        (ss\<lparr>ss_messages := Some (transcript ss @
           [\<lparr>msg_role = lit ''user'', msg_content = t, msg_details = None\<rparr>,
            \<lparr>msg_role = lit ''assistant'', msg_content = chat_error_text url msg,
              msg_details = None\<rparr>])\<rparr>, Rerun)"
    by (intro tab_chat_failure) simp_all
qed (rule send_error_text_url send_error_text_detail chat_error_text_url chat_error_text_detail)+

text \<open>An HTTP error status for the Gradio handler, a refused connection for the
  Streamlit one.\<close>

theorem send_failure_one_error_message_witness:
  "on_send sample_lib backend_503 (Some (lit '' cough '')) (lit ''http://localhost:8000'') 3
     (Some []) =
     Inr ([],
          [(lit ''cough'', send_error_text (lit ''http://localhost:8000'')
              (lit ''503 Server Error: Service Unavailable for url: http://localhost:8000/predict''))],
          [(lit ''cough'', send_error_text (lit ''http://localhost:8000'')
              (lit ''503 Server Error: Service Unavailable for url: http://localhost:8000/predict''))],
          JNull, [], empty_frame [LStr (lit ''disease''), LStr (lit ''probability'')]) \<and>
   tab_chat sample_lib backend_down (lit ''http://localhost:8000'') 3 (Some (lit ''cough''))
     \<lparr>ss_messages = None, ss_last_raw = None\<rparr> =
     (\<lparr>ss_messages = Some
         [greeting,
          \<lparr>msg_role = lit ''user'', msg_content = lit ''cough'', msg_details = None\<rparr>,
          \<lparr>msg_role = lit ''assistant'',
            msg_content = chat_error_text (lit ''http://localhost:8000'') (lit ''Connection refused''),
            msg_details = None\<rparr>],
       ss_last_raw = None\<rparr>, Rerun)"
  using send_failure_one_error_message
          [where ut = "Some (lit '' cough '')" and t = "lit ''cough''" and net = backend_503
             and url = "lit ''http://localhost:8000''" and k = 3 and cls = "lit ''HTTPError''"
             and msg = "lit ''503 Server Error: Service Unavailable for url: http://localhost:8000/predict''"
             and lib = sample_lib and hopt = "Some []"]
        send_failure_one_error_message
          [where t = "lit ''cough''" and net = backend_down
             and url = "lit ''http://localhost:8000''" and k = 3 and cls = "lit ''ConnectionError''"
             and msg = "lit ''Connection refused''" and lib = sample_lib
             and ss = "\<lparr>ss_messages = None, ss_last_raw = None\<rparr>"]
  by (simp add: post_predict_gradio_def post_predict_streamlit_def backend_503_def
        backend_down_def run_simps str_int_def str_nat.simps transcript_def)

section \<open>The request of \<open>post_predict\<close>\<close>

text \<open>
  Claim C7, as amended: for every input text and \<open>top_k\<close>, \<open>post_predict\<close> issues one request,
  a \<open>POST\<close> whose JSON body is exactly the object with \<open>text\<close> equal to the input string and
  \<open>top_k\<close> equal to the integer, and returns the decoded JSON response on success. The
  Streamlit \<open>post_predict\<close> sends it to \<open>{api_base}/predict\<close> for the base URL as given, the
  Gradio one to \<open>{n}/predict\<close> for the normalised base URL \<open>n\<close>. That the request is the only
  one issued is stated as: the result is the same on two networks that answer this
  request alike.
\<close>

theorem post_predict_request:
  "(net' (spec_predict_request b t k) = net (spec_predict_request b t k) \<longrightarrow>
      post_predict_streamlit net' b t k = post_predict_streamlit net b t k) \<and>
   (net (spec_predict_request b t k) = Response r \<and>
    \<not> (400 \<le> status_code r \<and> status_code r < 600) \<and> body r = Inr v \<longrightarrow>
      post_predict_streamlit net b t k = Inr v) \<and>
   (net' (spec_predict_request (norm_base (Some b)) t k) =
      net (spec_predict_request (norm_base (Some b)) t k) \<longrightarrow>
      post_predict_gradio net' b t k = post_predict_gradio net b t k) \<and>
   (net (spec_predict_request (norm_base (Some b)) t k) = Response r \<and>
    \<not> (400 \<le> status_code r \<and> status_code r < 600) \<and> body r = Inr v \<longrightarrow>
      post_predict_gradio net b t k = Inr v)"
  by (auto simp add: post_predict_streamlit_def post_predict_gradio_def spec_predict_request_def
        requests_post_def raise_for_status_def response_json_def Let_def)

text \<open>Both functions against the sample backend; the Gradio one is given a base URL
  with white space and a final slash.\<close>

theorem post_predict_request_witness:
  "post_predict_streamlit sample_backend (lit ''http://localhost:8000'') (lit ''cough'') 3 =
     Inr sample_prediction \<and>
   post_predict_gradio sample_backend (lit '' http://localhost:8000/'') (lit ''cough'') 3 =
     Inr sample_prediction"
  using post_predict_request [of sample_backend "lit ''http://localhost:8000''" "lit ''cough''" 3
          sample_backend "\<lparr>status_code = 200, reason = lit ''OK'',
             resp_url = lit ''http://localhost:8000/predict'', body = Inr sample_prediction\<rparr>"
          sample_prediction]
        post_predict_request [of sample_backend "lit '' http://localhost:8000/''" "lit ''cough''" 3
          sample_backend "\<lparr>status_code = 200, reason = lit ''OK'',
             resp_url = lit ''http://localhost:8000/predict'', body = Inr sample_prediction\<rparr>"
          sample_prediction]
  by (simp add: spec_predict_request_def sample_backend_def run_simps)

text \<open>
  The claim as stated fails for the Gradio \<open>post_predict\<close> on a base URL with a final
  slash: it returns the prediction, although \<open>POST {base_url}/predict\<close>, which has two
  slashes, is answered 404 and would have raised \<open>HTTPError\<close>.
\<close>

theorem post_predict_gradio_trailing_slash:
  "post_predict_gradio sample_backend (lit ''http://localhost:8000/'') (lit ''cough'') 3 =
     Inr sample_prediction \<and>
   (case sample_backend (spec_predict_request (lit ''http://localhost:8000/'') (lit ''cough'') 3) of
      Response r \<Rightarrow> status_code r = 404
    | Raised e \<Rightarrow> False)"
  by (simp add: post_predict_gradio_def spec_predict_request_def sample_backend_def run_simps)

section \<open>Clearing the conversation\<close>




section \<open>A failing request keeps the conversation\<close>

text \<open>
  Claim C5: for every conversation history and every failing \<open>POST /predict\<close> call, the
  send handler returns normally and every entry of the conversation from before the send
  is still there, unchanged and at its place: the old history is a prefix of the new
  one. The error message takes the place of the placeholder of the new pair (Gradio) or
  follows the user's message (Streamlit).
\<close>

theorem send_failure_keeps_history:
  "(strip (case ut of None \<Rightarrow> [] | Some x \<Rightarrow> x) = t \<and> t \<noteq> [] \<and>
    post_predict_gradio net url t k = Inl (RequestException cls msg) \<longrightarrow>
      (\<exists>u c hs raw d df.
         on_send lib net ut url k hopt = Inr (u, c, hs, raw, d, df) \<and>
         prefix (case hopt of None \<Rightarrow> [] | Some h \<Rightarrow> h) c \<and>
         prefix (case hopt of None \<Rightarrow> [] | Some h \<Rightarrow> h) hs)) \<and>
   (t \<noteq> [] \<and> post_predict_streamlit net url t k = Inl (RequestException cls msg) \<longrightarrow>
      snd (tab_chat lib net url k (Some t) ss) = Rerun \<and>
      prefix (transcript ss) (transcript (fst (tab_chat lib net url k (Some t) ss))))"
proof (intro conjI impI)
  assume a: "strip (case ut of None \<Rightarrow> [] | Some x \<Rightarrow> x) = t \<and> t \<noteq> [] \<and>
    post_predict_gradio net url t k = Inl (RequestException cls msg)"
  have "on_send lib net ut url k hopt =
           Inr ([], (case hopt of None \<Rightarrow> [] | Some h \<Rightarrow> h) @ [(t, send_error_text url msg)],
                (case hopt of None \<Rightarrow> [] | Some h \<Rightarrow> h) @ [(t, send_error_text url msg)],
                JNull, [], empty_frame [LStr (lit ''disease''), LStr (lit ''probability'')])"
    using a by (intro on_send_failure) simp_all
  then show "\<exists>u c hs raw d df.
         on_send lib net ut url k hopt = Inr (u, c, hs, raw, d, df) \<and>
         prefix (case hopt of None \<Rightarrow> [] | Some h \<Rightarrow> h) c \<and>
         prefix (case hopt of None \<Rightarrow> [] | Some h \<Rightarrow> h) hs"
    by simp
next
  assume a: "t \<noteq> [] \<and> post_predict_streamlit net url t k = Inl (RequestException cls msg)"
  then have r: "tab_chat lib net url k (Some t) ss =
           (ss\<lparr>ss_messages := Some (transcript ss @
              [\<lparr>msg_role = lit ''user'', msg_content = t, msg_details = None\<rparr>,
               \<lparr>msg_role = lit ''assistant'', msg_content = chat_error_text url msg,
                 msg_details = None\<rparr>])\<rparr>, Rerun)"
    by (intro tab_chat_failure) simp_all
  show "snd (tab_chat lib net url k (Some t) ss) = Rerun" by (simp add: r)
  show "prefix (transcript ss) (transcript (fst (tab_chat lib net url k (Some t) ss)))"
    by (simp add: r transcript_def)
qed

text \<open>A history of one pair and a refused connection; a transcript with the greeting and
  an HTTP error status.\<close>

theorem send_failure_keeps_history_witness:
  "(\<exists>u c hs raw d df.
      on_send sample_lib backend_down (Some (lit ''cough'')) (lit ''http://localhost:8000'') 3
        (Some [(lit ''fever'', lit ''Flu'')]) = Inr (u, c, hs, raw, d, df) \<and>
      prefix [(lit ''fever'', lit ''Flu'')] c \<and> prefix [(lit ''fever'', lit ''Flu'')] hs) \<and>
   prefix [greeting]
     (transcript (fst (tab_chat sample_lib backend_503 (lit ''http://localhost:8000'') 3
        (Some (lit ''cough'')) \<lparr>ss_messages = Some [greeting], ss_last_raw = None\<rparr>)))"
  using send_failure_keeps_history
          [where ut = "Some (lit ''cough'')" and t = "lit ''cough''" and net = backend_down
             and url = "lit ''http://localhost:8000''" and k = 3 and cls = "lit ''ConnectionError''"
             and msg = "lit ''Connection refused''"
             and lib = sample_lib and hopt = "Some [(lit ''fever'', lit ''Flu'')]"]
        send_failure_keeps_history
          [where t = "lit ''cough''" and net = backend_503
             and url = "lit ''http://localhost:8000''" and k = 3 and cls = "lit ''HTTPError''"
             and msg = "lit ''503 Server Error: Service Unavailable for url: http://localhost:8000/predict''"
             and lib = sample_lib
             and ss = "\<lparr>ss_messages = Some [greeting], ss_last_raw = None\<rparr>"]
  by (simp add: post_predict_gradio_def post_predict_streamlit_def backend_503_def
        backend_down_def run_simps str_int_def str_nat.simps transcript_def)

section \<open>Which exceptions leave the send handler\<close>




lemma tab_chat_list_response_escapes:
  "tab_chat sample_lib backend_list (lit ''http://localhost:8000'') 3 (Some (lit ''cough''))
     \<lparr>ss_messages = None, ss_last_raw = None\<rparr> =
   (\<lparr>ss_messages = Some
        [greeting, \<lparr>msg_role = lit ''user'', msg_content = lit ''cough'', msg_details = None\<rparr>],
      ss_last_raw = Some (JArr [])\<rparr>,
    Escaped (AttributeError
          ([39] @ lit ''list'' @ [39] @ lit '' object has no attribute '' @ [39] @ lit ''get'' @ [39])))"
  by (simp add: tab_chat_def chat_try_def and_then_def post_predict_streamlit_def
        backend_list_def run_simps Let_def transcript_def)

section \<open>The columns of the predictions table\<close>

text \<open>
  Claim C9, as amended: for every input dictionary whose \<open>predictions\<close> is absent, empty
  (\<open>null\<close> or an empty list) or a list of objects, whether or not they have the fields
  \<open>disease\<close> and \<open>probability\<close>, \<open>predictions_to_df\<close> returns a data frame whose columns are
  exactly \<open>disease\<close> and \<open>probability\<close>, in that order.
\<close>

theorem predictions_to_df_columns:
  "predictions_ok (map_of kvs (lit ''predictions'')) \<longrightarrow>
     (\<exists>df. predictions_to_df lib (JObj kvs) = Inr df \<and>
           df_labels df = [LStr (lit ''disease''), LStr (lit ''probability'')])"
  using predictions_to_df_ok by (intro impI)

text \<open>The sample prediction; an entry without probability and one without any field;
  no key \<open>predictions\<close> at all.\<close>

theorem predictions_to_df_columns_witness:
  "(\<exists>df. predictions_to_df sample_lib sample_prediction = Inr df \<and>
         df_labels df = [LStr (lit ''disease''), LStr (lit ''probability'')]) \<and>
   (\<exists>df. predictions_to_df sample_lib
           (JObj [(lit ''predictions'',
                   JArr [JObj [(lit ''disease'', JStr (lit ''Flu''))], JObj []])]) = Inr df \<and>
         df_labels df = [LStr (lit ''disease''), LStr (lit ''probability'')]) \<and>
   (\<exists>df. predictions_to_df sample_lib (JObj []) = Inr df \<and>
         df_labels df = [LStr (lit ''disease''), LStr (lit ''probability'')])"
  using predictions_to_df_columns [of "dict_items sample_prediction" sample_lib]
        predictions_to_df_columns
          [of "[(lit ''predictions'', JArr [JObj [(lit ''disease'', JStr (lit ''Flu''))], JObj []])]"
              sample_lib]
        predictions_to_df_columns [of "[]" sample_lib]
  by (simp add: sample_prediction_def predictions_ok_def lit_def)

text \<open>
  The claim as stated, for every input dictionary, fails when \<open>predictions\<close> is a number:
  the constructor of the data frame raises \<open>ValueError\<close>, and so does \<open>predictions_to_df\<close>.
\<close>

theorem predictions_to_df_scalar:
  "predictions_to_df sample_lib (JObj [(lit ''predictions'', JInt 5)]) =
     Inl (ValueError (lit ''DataFrame constructor not properly called!''))"
  by (simp add: predictions_to_df_def and_then_def py_or_def)

section \<open>The summary of a valid response\<close>

text \<open>
  Claim C3: for every valid predict response, the summary that the assistant shows is
  built without an exception and contains the value of \<open>primary_disease\<close>; it ends with
  the elements of \<open>found_symptoms\<close> joined with a comma and a space, and with the em dash
  in their place when \<open>found_symptoms\<close> is empty or absent. The Streamlit front-end builds
  the summary in \<open>format_assistant_summary\<close>; in the Gradio front-end it is the answer of
  the new pair of the history that \<open>on_send\<close> returns.
\<close>

theorem summary_shows_disease_and_symptoms:
  "valid_response data \<longrightarrow>
     (\<exists>s. format_assistant_summary lib data = Inr s \<and>
          sublist (response_primary data) s \<and>
          suffix (spec_found_text (response_found data)) s \<and>
          (response_found data = [] \<longrightarrow> suffix [8212] s) \<and>
          (strip (case ut of None \<Rightarrow> [] | Some x \<Rightarrow> x) = t \<and> t \<noteq> [] \<and>
           post_predict_gradio net url t k = Inr data \<longrightarrow>
             (\<exists>d df. on_send lib net ut url k hopt =
                Inr ([], (case hopt of None \<Rightarrow> [] | Some h \<Rightarrow> h) @ [(t, s)],
                     (case hopt of None \<Rightarrow> [] | Some h \<Rightarrow> h) @ [(t, s)], data, d, df))))"
proof
  assume v: "valid_response data"
  from summary_valid [OF v] obtain s where
    s: "format_assistant_summary lib data = Inr s"
    and p: "sublist (response_primary data) s"
    and f: "suffix (spec_found_text (response_found data)) s" by blast
  from build_details_html_valid [OF v] obtain d where d: "build_details_html lib data = Inr d" ..
  from predictions_to_df_valid [OF v] obtain df where df: "predictions_to_df lib data = Inr df" ..
  have e: "response_found data = [] \<longrightarrow> suffix [8212] s"
    using f by (auto simp: spec_found_text_def)
  have g: "strip (case ut of None \<Rightarrow> [] | Some x \<Rightarrow> x) = t \<and> t \<noteq> [] \<and>
           post_predict_gradio net url t k = Inr data \<longrightarrow>
             (\<exists>d df. on_send lib net ut url k hopt =
                Inr ([], (case hopt of None \<Rightarrow> [] | Some h \<Rightarrow> h) @ [(t, s)],
                     (case hopt of None \<Rightarrow> [] | Some h \<Rightarrow> h) @ [(t, s)], data, d, df))"
  proof (intro impI, elim conjE)
    assume "strip (case ut of None \<Rightarrow> [] | Some x \<Rightarrow> x) = t" and "t \<noteq> []"
      and "post_predict_gradio net url t k = Inr data"
    from on_send_success [OF this s d df] show "\<exists>d df. on_send lib net ut url k hopt =
                Inr ([], (case hopt of None \<Rightarrow> [] | Some h \<Rightarrow> h) @ [(t, s)],
                     (case hopt of None \<Rightarrow> [] | Some h \<Rightarrow> h) @ [(t, s)], data, d, df)"
      by (intro exI)
  qed
  from s p f e g show "\<exists>s. format_assistant_summary lib data = Inr s \<and>
          sublist (response_primary data) s \<and>
          suffix (spec_found_text (response_found data)) s \<and>
          (response_found data = [] \<longrightarrow> suffix [8212] s) \<and>
          (strip (case ut of None \<Rightarrow> [] | Some x \<Rightarrow> x) = t \<and> t \<noteq> [] \<and>
           post_predict_gradio net url t k = Inr data \<longrightarrow>
             (\<exists>d df. on_send lib net ut url k hopt =
                Inr ([], (case hopt of None \<Rightarrow> [] | Some h \<Rightarrow> h) @ [(t, s)],
                     (case hopt of None \<Rightarrow> [] | Some h \<Rightarrow> h) @ [(t, s)], data, d, df)))"
    by (intro exI [of _ s] conjI)
qed

text \<open>The sample prediction sent by the sample backend, and a valid response without
  \<open>found_symptoms\<close>.\<close>

theorem summary_shows_disease_and_symptoms_witness:
  "(\<exists>s. format_assistant_summary sample_lib sample_prediction = Inr s \<and>
        sublist (lit ''Common Cold'') s \<and>
        suffix (lit ''cough, fatigue'') s \<and>
        (\<exists>d df. on_send sample_lib sample_backend (Some (lit ''cough and fatigue''))
                  (lit ''http://localhost:8000'') 3 (Some []) =
                 Inr ([], [(lit ''cough and fatigue'', s)], [(lit ''cough and fatigue'', s)],
                      sample_prediction, d, df))) \<and>
   (\<exists>s. format_assistant_summary sample_lib
          (JObj [(lit ''primary_disease'', JStr (lit ''Flu'')),
                 (lit ''predictions'', JArr []),
                 (lit ''specialist'', JStr (lit ''GP'')),
                 (lit ''precautions'', JArr []),
                 (lit ''typical_symptoms'', JArr [])]) = Inr s \<and>
        sublist (lit ''Flu'') s \<and> suffix [8212] s)"
  using summary_shows_disease_and_symptoms
          [where data = sample_prediction and lib = sample_lib
             and ut = "Some (lit ''cough and fatigue'')" and t = "lit ''cough and fatigue''"
             and net = sample_backend and url = "lit ''http://localhost:8000''" and k = 3
             and hopt = "Some []"]
        summary_shows_disease_and_symptoms
          [where data = "JObj [(lit ''primary_disease'', JStr (lit ''Flu'')),
                 (lit ''predictions'', JArr []),
                 (lit ''specialist'', JStr (lit ''GP'')),
                 (lit ''precautions'', JArr []),
                 (lit ''typical_symptoms'', JArr [])]" and lib = sample_lib
             and ut = None and t = "[]" and net = sample_backend and url = "[]" and k = 3
             and hopt = None]
  by (simp add: sample_prediction_def has_field_def response_primary_def response_found_def
        spec_found_text_def post_predict_gradio_def sample_backend_def run_simps)

end
